theory Spec2Isabelle
  imports Complex_Main "HOL-Library.Sublist"
begin

section \<open>JavaScript strings\<close>

text \<open>
  A JavaScript string is modelled as a \<^typ>\<open>string\<close>: a list of code units, each below 256
  and read as the code point of the same number. The regular expression class \<^verbatim>\<open>\s\<close> and
  \<^verbatim>\<open>String.prototype.trim\<close> share one set of white space characters; of these, tab, line
  feed, vertical tab, form feed, carriage return, space and the no-break space lie in this range.
\<close>

definition isSpace :: "char \<Rightarrow> bool" where
  "isSpace c = (of_char c \<in> {9, 10, 11, 12, 13, 32, 160 :: nat})"

text \<open>\<^verbatim>\<open>toLowerCase\<close> on one code unit: the capital letters A to Z, and the capital letters
  of the upper half of the range (the multiplication sign apart), move 32 places up.\<close>

definition lowerChar :: "char \<Rightarrow> char" where
  "lowerChar c =
     (let n = (of_char c :: nat)
      in if (65 \<le> n \<and> n \<le> 90) \<or> (192 \<le> n \<and> n \<le> 222 \<and> n \<noteq> 215)
         then char_of (n + 32) else c)"

definition toLowerCase :: "string \<Rightarrow> string" where
  "toLowerCase s = map lowerChar s"

text \<open>\<^verbatim>\<open>s.split(/[...]+/)\<close> for a character class: the pieces between the maximal runs of
  separator characters, the empty pieces at both ends included; the empty string gives one
  empty piece.\<close>

function splitRuns :: "(char \<Rightarrow> bool) \<Rightarrow> string \<Rightarrow> string list" where
  "splitRuns sep [] = [[]]"
| "splitRuns sep (c # cs) =
     (if sep c then [] # splitRuns sep (dropWhile sep cs)
      else (case splitRuns sep cs of
              [] \<Rightarrow> [[c]]
            | p # ps \<Rightarrow> (c # p) # ps))"
  by pat_completeness auto
termination
  by (relation "measure (\<lambda>(sep, s). length s)") (auto simp: length_dropWhile_le less_Suc_eq_le)

text \<open>\<^verbatim>\<open>s.split(',')\<close>: every separator character ends a piece.\<close>

fun splitChar :: "char \<Rightarrow> string \<Rightarrow> string list" where
  "splitChar d [] = [[]]"
| "splitChar d (c # cs) =
     (if c = d then [] # splitChar d cs
      else (case splitChar d cs of
              [] \<Rightarrow> [[c]]
            | p # ps \<Rightarrow> (c # p) # ps))"

definition trim :: "string \<Rightarrow> string" where
  "trim s = rev (dropWhile isSpace (rev (dropWhile isSpace s)))"

text \<open>\<^verbatim>\<open>s.includes(k)\<close>: \<open>k\<close> occurs in \<open>s\<close> as a contiguous piece.\<close>

fun includesStr :: "string \<Rightarrow> string \<Rightarrow> bool" where
  "includesStr [] k = (k = [])"
| "includesStr (c # cs) k = (take (length k) (c # cs) = k \<or> includesStr cs k)"

text \<open>The number of matches of the global regular expression \<^verbatim>\<open>/##\s/g\<close>: the text is
  scanned from the left, and the scan resumes behind each match.\<close>

fun countH2Matches :: "string \<Rightarrow> nat" where
  "countH2Matches (a # b # c # cs) =
     (if a = CHR ''#'' \<and> b = CHR ''#'' \<and> isSpace c
      then Suc (countH2Matches cs)
      else countH2Matches (b # c # cs))"
| "countH2Matches cs = 0"

text \<open>Decimal numerals, for template literals and \<^verbatim>\<open>toFixed\<close>.\<close>

definition digitChar :: "nat \<Rightarrow> char" where
  "digitChar d = char_of (48 + d)"

function showNat :: "nat \<Rightarrow> string" where
  "showNat n = (if n < 10 then [digitChar n] else showNat (n div 10) @ [digitChar (n mod 10)])"
  by pat_completeness auto
termination
  by (relation "measure id") auto

text \<open>\<^verbatim>\<open>x.toFixed(2)\<close> over the reals: the sign, then the integer nearest to \<open>100 * |x|\<close>
  (the larger one at a tie) written with a point before its last two digits.\<close>

definition toFixed2 :: "real \<Rightarrow> string" where
  "toFixed2 x =
     (let n = nat (round (\<bar>x\<bar> * 100))
      in (if x < 0 then ''-'' else []) @ showNat (n div 100) @ ''.'' @
         [digitChar (n div 10 mod 10), digitChar (n mod 10)])"

section \<open>SEO optimization service\<close>

text \<open>JavaScript numbers are modelled as real numbers, and \<^verbatim>\<open>Math.round\<close> as \<^const>\<open>round\<close>,
  which like it rounds a tie upwards. The result of the provider's \<^verbatim>\<open>analyzeContent\<close>
  (interface \<^verbatim>\<open>SEOContentAnalysis\<close>) has its fields prefixed with \<open>ext\<close>.\<close>

record SEOContentAnalysis =
  extScore :: real
  extKeywordDensity :: real
  extReadability :: real
  extRecommendations :: "string list"
  competitorUrls :: "string list option"

record SEOAnalysis =
  keyword :: string
  score :: int
  recommendations :: "string list"
  readabilityScore :: real
  keywordDensity :: real
  headingStructure :: bool
  externalData :: "SEOContentAnalysis option"

text \<open>An awaited promise either resolves with a value or rejects with an error; a time-out
  of the provider's request is a rejection.\<close>

datatype js_error = Error string

datatype 'a settled = Resolved 'a | Rejected js_error

type_synonym ISEOProvider = "string \<Rightarrow> string \<Rightarrow> SEOContentAnalysis settled"

definition calculateKeywordDensity :: "string \<Rightarrow> string \<Rightarrow> real" where
  "calculateKeywordDensity content kw =
     (let words = splitRuns isSpace (toLowerCase content);
          keywordLower = toLowerCase kw;
          keywordCount = length (filter (\<lambda>w. includesStr w keywordLower) words);
          density = (real keywordCount / real (length words)) * 100
      in min density 3)"

definition isLowerAZ :: "char \<Rightarrow> bool" where
  "isLowerAZ c = (97 \<le> (of_char c :: nat) \<and> (of_char c :: nat) \<le> 122)"

definition isVowel :: "char \<Rightarrow> bool" where
  "isVowel c = (c \<in> set ''aeiou'')"

definition estimateSyllables :: "string \<Rightarrow> nat" where
  "estimateSyllables word0 =
     (let word = filter isLowerAZ (toLowerCase word0);
          vowels = filter isVowel word
      in max 1 (length vowels))"

definition countSyllables :: "string \<Rightarrow> nat" where
  "countSyllables text =
     (let words = splitRuns isSpace text
      in fold (\<lambda>word syllableCount. syllableCount + estimateSyllables word) words 0)"

definition isSentenceEnd :: "char \<Rightarrow> bool" where
  "isSentenceEnd c = (c \<in> set ''.!?'')"

definition calculateReadabilityScore :: "string \<Rightarrow> real" where
  "calculateReadabilityScore content =
     (let sentences = filter (\<lambda>s. trim s \<noteq> []) (splitRuns isSentenceEnd content);
          words = splitRuns isSpace content;
          syllables = countSyllables content
      in if length sentences = 0 \<or> length words = 0 then 0
         else let grade = 0.39 * (real (length words) / real (length sentences)) +
                          11.8 * (real syllables / real (length words)) - 15.59
              in max 0 (min 100 (100 - grade * 5)))"

definition checkHeadingStructure :: "string \<Rightarrow> bool" where
  "checkHeadingStructure content = (let h2Count = countH2Matches content in h2Count \<ge> 2)"

definition generateRecommendations :: "SEOAnalysis \<Rightarrow> string \<Rightarrow> string list" where
  "generateRecommendations analysis content =
     (let r1 = (if keywordDensity analysis < 0.5
                then [''Increase keyword density (currently '' @
                      toFixed2 (keywordDensity analysis) @ ''%)'']
                else []);
          r2 = (if keywordDensity analysis > 3
                then [''Reduce keyword stuffing (currently '' @
                      toFixed2 (keywordDensity analysis) @ ''%)'']
                else []);
          r3 = (if readabilityScore analysis < 60
                then [''Improve readability - use shorter sentences'']
                else []);
          r4 = (if \<not> headingStructure analysis
                then [''Add proper heading structure (H2, H3 tags)'']
                else []);
          wordCount = length (splitRuns isSpace content);
          r5 = (if wordCount < 300
                then [''Expand content (currently '' @ showNat wordCount @ '' words)'']
                else [])
      in r1 @ r2 @ r3 @ r4 @ r5)"

definition calculateSEOScore :: "SEOAnalysis \<Rightarrow> int" where
  "calculateSEOScore analysis =
     (let s1 = (if keywordDensity analysis > 0.5 \<and> keywordDensity analysis < 3
                then 25 else 10 :: real);
          s2 = s1 + (readabilityScore analysis / 100) * 25;
          s3 = s2 + (if headingStructure analysis then 25 else 10);
          recommendationPenalty = real (length (recommendations analysis)) * 5;
          s4 = s3 + max 0 (25 - recommendationPenalty)
      in round s4)"

text \<open>The record \<^verbatim>\<open>analyzeContent\<close> starts from, and the local analysis, which both of its
  branches run in the same order on that record.\<close>

definition initialAnalysis :: "string \<Rightarrow> SEOAnalysis" where
  "initialAnalysis kw =
     \<lparr>keyword = kw, score = 0, recommendations = [], readabilityScore = 0,
      keywordDensity = 0, headingStructure = False, externalData = None\<rparr>"

definition internalAnalysis :: "SEOAnalysis \<Rightarrow> string \<Rightarrow> string \<Rightarrow> SEOAnalysis" where
  "internalAnalysis analysis content kw =
     (let a1 = analysis\<lparr>keywordDensity := calculateKeywordDensity content kw\<rparr>;
          a2 = a1\<lparr>readabilityScore := calculateReadabilityScore content\<rparr>
      in a2\<lparr>headingStructure := checkHeadingStructure content\<rparr>)"

text \<open>The body of the \<^verbatim>\<open>try\<close> block: a rejection of the awaited provider call leaves
  it as an exception, before any field is assigned.\<close>

definition tryBlock ::
  "ISEOProvider \<Rightarrow> SEOAnalysis \<Rightarrow> string \<Rightarrow> string \<Rightarrow> js_error + SEOAnalysis" where
  "tryBlock seoProvider analysis content kw =
     (case seoProvider content kw of
        Rejected e \<Rightarrow> Inl e
      | Resolved externalAnalysis \<Rightarrow>
          (let a0 = analysis\<lparr>externalData := Some externalAnalysis\<rparr>;
               a3 = internalAnalysis a0 content kw;
               a4 = a3\<lparr>recommendations :=
                        extRecommendations externalAnalysis @ generateRecommendations a3 content\<rparr>
           in Inr (a4\<lparr>score := calculateSEOScore a4\<rparr>)))"

definition catchBlock :: "SEOAnalysis \<Rightarrow> string \<Rightarrow> string \<Rightarrow> js_error + SEOAnalysis" where
  "catchBlock analysis content kw =
     (let a3 = internalAnalysis analysis content kw;
          a4 = a3\<lparr>recommendations := generateRecommendations a3 content\<rparr>
      in Inr (a4\<lparr>score := calculateSEOScore a4\<rparr>))"

definition analyzeContent ::
  "ISEOProvider \<Rightarrow> string \<Rightarrow> string \<Rightarrow> string \<Rightarrow> js_error + SEOAnalysis" where
  "analyzeContent seoProvider content kw title =
     (let analysis = initialAnalysis kw
      in case tryBlock seoProvider analysis content kw of
           Inr result \<Rightarrow> Inr result
         | Inl error \<Rightarrow> catchBlock analysis content kw)"

text \<open>The production provider (\<^verbatim>\<open>SERPAPIProvider.analyzeContent\<close>) resolves with a fixed
  analysis.\<close>

definition serpapiAnalyzeContent :: ISEOProvider where
  "serpapiAnalyzeContent content kw =
     Resolved \<lparr>extScore = 75, extKeywordDensity = 1.5, extReadability = 68,
       extRecommendations = [''Add more subheadings'', ''Include keyword in first paragraph'',
         ''Add internal links''],
       competitorUrls = Some [''https://example.com/competitor1'',
         ''https://example.com/competitor2'']\<rparr>"

text \<open>The recommendations of the local analysis alone: \<^verbatim>\<open>generateRecommendations\<close> reads
  the three locally computed fields and the text, nothing else.\<close>

definition localRecommendations :: "string \<Rightarrow> string \<Rightarrow> string list" where
  "localRecommendations content kw =
     generateRecommendations
       ((initialAnalysis kw)\<lparr>keywordDensity := calculateKeywordDensity content kw,
          readabilityScore := calculateReadabilityScore content,
          headingStructure := checkHeadingStructure content\<rparr>) content"

section \<open>Performance analytics service\<close>

text \<open>\<^verbatim>\<open>v || d\<close> on an optional number: the default replaces a missing value and a zero.\<close>

definition orDefault :: "real option \<Rightarrow> real \<Rightarrow> real" where
  "orDefault v d = (case v of None \<Rightarrow> d | Some x \<Rightarrow> if x = 0 then d else x)"




section \<open>Content calendar service: keywords from history\<close>

text \<open>A blog post as ERPNext returns it. \<open>content_keywords\<close> is \<open>None\<close> when the field is
  missing or not a string, \<open>engagement_score\<close> is \<open>None\<close> when it is missing.\<close>

record BlogPost =
  content_keywords :: "string option"
  engagement_score :: "real option"

text \<open>A JavaScript \<^verbatim>\<open>Map\<close> from strings to numbers, as the list of its entries in insertion
  order: \<^verbatim>\<open>set\<close> on a present key replaces the value in place, on a new key it appends.\<close>

type_synonym keywordMap = "(string \<times> real) list"

fun mapSet :: "keywordMap \<Rightarrow> string \<Rightarrow> real \<Rightarrow> keywordMap" where
  "mapSet [] k v = [(k, v)]"
| "mapSet ((k', v') # m) k v = (if k' = k then (k, v) # m else (k', v') # mapSet m k v)"

definition mapGet :: "keywordMap \<Rightarrow> string \<Rightarrow> real option" where
  "mapGet m k = map_of m k"

definition getDefaultKeywords :: "string list" where
  "getDefaultKeywords =
     [''sales automation'', ''lead generation'', ''AI content marketing'',
      ''SEO optimization'', ''social media automation'']"

text \<open>The body of \<^verbatim>\<open>recentPosts.forEach\<close>: a post whose keyword field is missing, not a
  string or empty is skipped.\<close>

definition addPost :: "BlogPost \<Rightarrow> keywordMap \<Rightarrow> keywordMap" where
  "addPost post keywordMap =
     (case content_keywords post of
        None \<Rightarrow> keywordMap
      | Some ck \<Rightarrow>
          if ck = [] then keywordMap
          else (let keywords = map trim (splitChar CHR '','' ck);
                    engagement = orDefault (engagement_score post) 1
                in fold (\<lambda>kw m. mapSet m kw (orDefault (mapGet m kw) 0 + engagement))
                     keywords keywordMap))"

text \<open>\<^verbatim>\<open>Array.prototype.sort\<close> is stable, and so is \<^const>\<open>sort_key\<close>; the comparator
  \<^verbatim>\<open>(a, b) => b[1] - a[1]\<close> orders the entries by descending value. A rejection of the
  awaited \<^verbatim>\<open>getDocumentList\<close> is caught.\<close>

definition getTopKeywordsFromHistory :: "BlogPost list settled \<Rightarrow> string list" where
  "getTopKeywordsFromHistory fetched =
     (case fetched of
        Rejected e \<Rightarrow> getDefaultKeywords
      | Resolved recentPosts \<Rightarrow>
          (let keywordMap = fold addPost recentPosts []
           in map fst (take 20 (sort_key (\<lambda>entry. - snd entry) keywordMap))))"





section \<open>Content calendar service: publishing schedule\<close>

text \<open>
  A JavaScript \<^verbatim>\<open>Date\<close> is modelled by its day number, the days since 1 January 1970
  (with the time zone taken as UTC, so that local midnight is a multiple of a day), and the
  invalid date by \<open>None\<close>. The constructor follows \<^verbatim>\<open>MakeDay\<close> of the language definition:
  a year from 0 to 99 means 1900 and later, the month index is carried into the year, and the
  day is counted from the first of that month. A date is valid up to 100,000,000 days on either
  side of 1970.
\<close>

type_synonym jsDate = "int option"

definition normalizeMonth :: "int \<Rightarrow> int \<Rightarrow> int \<times> int" where
  "normalizeMonth year monthIndex =
     (let yr = (if 0 \<le> year \<and> year \<le> 99 then 1900 + year else year)
      in (yr + monthIndex div 12, monthIndex mod 12))"

text \<open>The day number of the first day of month \<open>mn\<close> (0 to 11) of year \<open>ym\<close> in the Gregorian
  calendar, counted in years that start with March.\<close>

definition dayFromYearMonth :: "int \<Rightarrow> int \<Rightarrow> int" where
  "dayFromYearMonth ym mn =
     (let y = (if mn < 2 then ym - 1 else ym);
          mp = (mn + 10) mod 12
      in 365 * y + y div 4 - y div 100 + y div 400 + (153 * mp + 2) div 5 - 719468)"

definition newDate :: "int \<Rightarrow> int \<Rightarrow> int \<Rightarrow> jsDate" where
  "newDate year monthIndex day =
     (let (ym, mn) = normalizeMonth year monthIndex;
          n = dayFromYearMonth ym mn + day - 1
      in if - 100000000 \<le> n \<and> n \<le> 100000000 then Some n else None)"

text \<open>\<^verbatim>\<open>getDay\<close>: 0 is Sunday; day 0 was a Thursday. \<open>None\<close> stands for \<^verbatim>\<open>NaN\<close>.\<close>

definition getDay :: "jsDate \<Rightarrow> int option" where
  "getDay d = map_option (\<lambda>n. (n + 4) mod 7) d"

definition isLeapYear :: "int \<Rightarrow> bool" where
  "isLeapYear y = (y mod 4 = 0 \<and> (y mod 100 \<noteq> 0 \<or> y mod 400 = 0))"

definition daysInMonth :: "int \<Rightarrow> int \<Rightarrow> int" where
  "daysInMonth ym mn =
     (if mn = 1 then (if isLeapYear ym then 29 else 28)
      else if mn \<in> {3, 5, 8, 10} then 30 else 31)"

text \<open>\<^verbatim>\<open>new Date(year, month, 0).getDate()\<close>: day 0 of the month with index \<open>month\<close> is the
  last day of the month before, whose day of the month is the length of that month.\<close>

definition lastDateOfMonth :: "int \<Rightarrow> int \<Rightarrow> int option" where
  "lastDateOfMonth year month =
     (case newDate year month 0 of
        None \<Rightarrow> None
      | Some n \<Rightarrow> (let (ym, mn) = normalizeMonth year (month - 1) in Some (daysInMonth ym mn)))"

text \<open>The loop runs over the days 1 to \<open>daysInMonth\<close>, and not at all when that is \<^verbatim>\<open>NaN\<close>.\<close>

definition getOptimalPublishingDays :: "int \<Rightarrow> int \<Rightarrow> int list" where
  "getOptimalPublishingDays month year =
     (case lastDateOfMonth year month of
        None \<Rightarrow> []
      | Some daysInMonth' \<Rightarrow>
          filter (\<lambda>day. case getDay (newDate year (month - 1) day) of
                          None \<Rightarrow> False
                        | Some dayOfWeek \<Rightarrow> dayOfWeek \<ge> 2 \<and> dayOfWeek \<le> 4)
                 [1..daysInMonth'])"

datatype platform = Blog | Linkedin | Facebook | Instagram

datatype status = Scheduled | Draft | SeoOptimized | Published

text \<open>A content idea (three of its fields carry the prefix \<open>idea\<close>); \<open>platforms\<close> may be
  missing. In a content item, \<open>itemId\<close> and \<open>itemKeywords\<close> are the fields \<^verbatim>\<open>id\<close> and
  \<^verbatim>\<open>keywords\<close>.\<close>

record ContentIdea =
  ideaKeyword :: string
  ideaTitle :: string
  ideaDescription :: string
  platforms :: "platform list option"
  contentType :: string

record ContentItem =
  itemId :: string
  title :: string
  description :: string
  itemKeywords :: "string list"
  publishDate :: jsDate
  platform :: platform
  status :: status
  seoScore :: "real option"

definition contentTypes :: "string list" where
  "contentTypes =
     [''How-to Guide'', ''Case Study'', ''Tips & Tricks'', ''Industry News'', ''Best Practices'']"

definition generateContentIdeas :: "string list \<Rightarrow> ContentIdea list" where
  "generateContentIdeas kws =
     map (\<lambda>(index, kw).
            \<lparr>ideaKeyword = kw,
             ideaTitle = contentTypes ! (index mod length contentTypes) @ '': '' @ kw,
             ideaDescription = ''Comprehensive guide about '' @ kw,
             platforms = Some [Blog, Linkedin],
             contentType = contentTypes ! (index mod length contentTypes)\<rparr>)
         (enumerate 0 kws)"

text \<open>
  \<^verbatim>\<open>createPublishingSchedule\<close>: the outer loop runs over the ideas with their index, the inner
  one over the platforms of an idea, and each step pushes one item. \<open>uuidv4\<close> gives the
  identifiers in the order in which they are drawn. Indexing the empty list of days gives
  \<^verbatim>\<open>undefined\<close>, and with it the invalid date.
\<close>

definition createPublishingSchedule ::
  "(nat \<Rightarrow> string) \<Rightarrow> ContentIdea list \<Rightarrow> int \<Rightarrow> int \<Rightarrow> ContentItem list" where
  "createPublishingSchedule uuidv4 ideas month year =
     (let publishingDays = getOptimalPublishingDays month year
      in fold (\<lambda>(index, idea) calendar.
                 let publishDate' =
                       (if publishingDays = [] then None
                        else newDate year (month - 1)
                               (publishingDays ! (index mod length publishingDays)));
                     platforms' = (case platforms idea of None \<Rightarrow> [Blog] | Some ps \<Rightarrow> ps)
                 in fold (\<lambda>platform' calendar'.
                            calendar' @
                            [\<lparr>itemId = uuidv4 (length calendar'),
                              title = ideaTitle idea,
                              description = ideaDescription idea,
                              itemKeywords = [ideaKeyword idea],
                              publishDate = publishDate',
                              platform = platform',
                              status = Scheduled,
                              seoScore = None\<rparr>])
                         platforms' calendar)
              (enumerate 0 ideas) [])"

section \<open>Properties of the SEO optimization service\<close>

lemma splitRuns_nonempty: "splitRuns sep s \<noteq> []"
  by (induction sep s rule: splitRuns.induct) (auto split: list.splits)

lemma calculateReadabilityScore_range:
  "0 \<le> calculateReadabilityScore content \<and> calculateReadabilityScore content \<le> 100"
  by (simp add: calculateReadabilityScore_def Let_def)

lemma generateRecommendations_length: "length (generateRecommendations a content) \<le> 4"
  by (simp add: generateRecommendations_def Let_def)

lemma calculateSEOScore_ge_20:
  assumes "0 \<le> readabilityScore a"
  shows "20 \<le> calculateSEOScore a"
proof -
  let ?x = "(if keywordDensity a > 0.5 \<and> keywordDensity a < 3 then 25 else 10 :: real) +
            (readabilityScore a / 100) * 25 + (if headingStructure a then 25 else 10) +
            max 0 (25 - real (length (recommendations a)) * 5)"
  have "20 \<le> ?x" using assms by (auto simp: max_def)
  then have "round (20::real) \<le> round ?x" by (rule round_mono)
  then show ?thesis by (simp add: calculateSEOScore_def Let_def)
qed

lemma internalAnalysis_fields:
  "keywordDensity (internalAnalysis a content kw) = calculateKeywordDensity content kw"
  "readabilityScore (internalAnalysis a content kw) = calculateReadabilityScore content"
  "headingStructure (internalAnalysis a content kw) = checkHeadingStructure content"
  "recommendations (internalAnalysis a content kw) = recommendations a"
  "externalData (internalAnalysis a content kw) = externalData a"
  "keyword (internalAnalysis a content kw) = keyword a"
  by (simp_all add: internalAnalysis_def Let_def)

lemma generateRecommendations_cong:
  "keywordDensity a = keywordDensity b \<Longrightarrow> readabilityScore a = readabilityScore b \<Longrightarrow>
   headingStructure a = headingStructure b \<Longrightarrow>
   generateRecommendations a content = generateRecommendations b content"
  by (simp add: generateRecommendations_def)

lemma localRecommendations_internal:
  "generateRecommendations (internalAnalysis a content kw) content = localRecommendations content kw"
  unfolding localRecommendations_def
  by (rule generateRecommendations_cong) (simp_all add: internalAnalysis_fields)

text \<open>
  Claim C1. For every draft text, keyword and title, and whether the provider's
  \<^verbatim>\<open>analyzeContent\<close> resolves or rejects (by throwing or by timing out), the orchestrator's
  \<^verbatim>\<open>analyzeContent\<close> does not raise: it returns an analysis whose keyword density, readability
  score and heading flag are the locally computed values and whose score is the composite score
  of the returned record; after a rejection its recommendations are exactly the local
  recommendations, and it carries no external data.
\<close>

theorem analyzeContent_never_raises:
  "\<exists>r. analyzeContent seoProvider content kw ttl = Inr r \<and>
        keyword r = kw \<and>
        keywordDensity r = calculateKeywordDensity content kw \<and>
        readabilityScore r = calculateReadabilityScore content \<and>
        headingStructure r = checkHeadingStructure content \<and>
        score r = calculateSEOScore r \<and>
        (\<forall>e. seoProvider content kw = Rejected e \<longrightarrow>
              recommendations r = localRecommendations content kw \<and> externalData r = None)"
proof (cases "seoProvider content kw")
  case (Resolved ext)
  then show ?thesis
    by (simp add: analyzeContent_def tryBlock_def Let_def internalAnalysis_fields
        initialAnalysis_def calculateSEOScore_def)
next
  case (Rejected e)
  then show ?thesis
    by (simp add: analyzeContent_def tryBlock_def catchBlock_def Let_def internalAnalysis_fields
        localRecommendations_internal initialAnalysis_def calculateSEOScore_def)
qed

text \<open>A provider that times out, on a short draft with two headings.\<close>

theorem analyzeContent_never_raises_witness:
  "\<exists>r. analyzeContent (\<lambda>c k. Rejected (Error ''timeout'')) ''## Intro. Hello world! ## More''
          ''seo'' ''Title'' = Inr r \<and>
        recommendations r = [''Increase keyword density (currently 0.00%)'',
                             ''Expand content (currently 6 words)''] \<and>
        externalData r = None"
proof -
  have l: "localRecommendations ''## Intro. Hello world! ## More'' ''seo'' =
           [''Increase keyword density (currently 0.00%)'', ''Expand content (currently 6 words)'']"
    by code_simp
  show ?thesis
    using analyzeContent_never_raises
      [of "\<lambda>c k. Rejected (Error ''timeout'')" "''## Intro. Hello world! ## More''" "''seo''" "''Title''"]
    unfolding l by blast
qed




text \<open>
  Claim C10. The composite SEO score of an analysis record with a non-negative readability score
  is at least 20, whatever its recommendations: the density and heading buckets give at least 10
  each, the other two nothing negative. So every analysis that \<^verbatim>\<open>analyzeContent\<close> returns
  has a score of at least 20.
\<close>

theorem calculateSEOScore_floor:
  "(0 \<le> readabilityScore a \<longrightarrow> 20 \<le> calculateSEOScore a) \<and>
   (\<exists>r. analyzeContent seoProvider content kw ttl = Inr r \<and> 20 \<le> score r)"
proof
  show "0 \<le> readabilityScore a \<longrightarrow> 20 \<le> calculateSEOScore a"
    by (simp add: calculateSEOScore_ge_20)
next
  have r: "0 \<le> calculateReadabilityScore content"
    using calculateReadabilityScore_range by simp
  show "\<exists>r. analyzeContent seoProvider content kw ttl = Inr r \<and> 20 \<le> score r"
  proof (cases "seoProvider content kw")
    case (Resolved ext)
    then show ?thesis
      by (simp add: analyzeContent_def tryBlock_def Let_def calculateSEOScore_ge_20
          internalAnalysis_fields r)
  next
    case (Rejected e)
    then show ?thesis
      by (simp add: analyzeContent_def tryBlock_def catchBlock_def Let_def calculateSEOScore_ge_20
          internalAnalysis_fields r)
  qed
qed

theorem calculateSEOScore_floor_witness:
  "calculateSEOScore \<lparr>keyword = ''seo'', score = 0,
      recommendations = [''a'', ''b'', ''c'', ''d'', ''e'', ''f''],
      readabilityScore = 0, keywordDensity = 0, headingStructure = False, externalData = None\<rparr>
     = 20"
proof -
  let ?a = "\<lparr>keyword = ''seo'', score = 0,
      recommendations = [''a'', ''b'', ''c'', ''d'', ''e'', ''f''],
      readabilityScore = 0, keywordDensity = 0, headingStructure = False, externalData = None\<rparr>"
  have "20 \<le> calculateSEOScore ?a"
    using calculateSEOScore_floor [of ?a "\<lambda>c k. Rejected (Error ''timeout'')" "[]" "[]" "[]"]
    by simp
  moreover have "calculateSEOScore ?a \<le> 20"
    by (simp add: calculateSEOScore_def)
  ultimately show ?thesis by simp
qed

text \<open>
  Claim C2, as amended. The analysis returned on the fallback path has at most 5 (indeed at most
  4) recommendations. On the success path the provider's recommendations come first, unabridged,
  and are followed by at most 4 local ones: the list has at most 5 entries only when the
  provider gave no more than one.
\<close>

theorem recommendations_length_bound:
  "\<exists>r. analyzeContent seoProvider content kw ttl = Inr r \<and>
        (case seoProvider content kw of
           Rejected e \<Rightarrow> length (recommendations r) \<le> 4
         | Resolved ext \<Rightarrow>
             recommendations r = extRecommendations ext @ localRecommendations content kw \<and>
             length (recommendations r) \<le> length (extRecommendations ext) + 4)"
proof (cases "seoProvider content kw")
  case (Resolved ext)
  have "length (localRecommendations content kw) \<le> 4"
    by (simp add: localRecommendations_def generateRecommendations_length)
  with Resolved show ?thesis
    by (simp add: analyzeContent_def tryBlock_def Let_def localRecommendations_internal)
next
  case (Rejected e)
  then show ?thesis
    using generateRecommendations_length
    by (simp add: analyzeContent_def tryBlock_def catchBlock_def Let_def)
qed

text \<open>
  Claim C2, as stated, fails on the success path: for the empty draft the production provider
  gives three recommendations and the local analysis four more.
\<close>

theorem recommendations_length_counterexample:
  "map_sum id (length \<circ> recommendations)
     (analyzeContent serpapiAnalyzeContent [] ''seo'' ''Title'') = Inr 7
   \<and> \<not> (7::nat) \<le> 5"
  by code_simp

text \<open>
  Claim C8 fails on the code: \<^verbatim>\<open>checkHeadingStructure\<close> counts the matches of \<^verbatim>\<open>/##\s/g\<close>
  wherever they are. Two third-level headings, and two markers inside a line, each count as two
  second-level headings, although neither text has a line that starts with exactly two marker
  characters; the doc comment of the function asks for at least two H2 tags.
\<close>

theorem checkHeadingStructure_deeper_headings:
  "checkHeadingStructure (''### Overview'' @ [CHR 0x0A] @ ''### Details'') = True
   \<and> checkHeadingStructure ''Write ## and ## inside one line'' = True
   \<and> checkHeadingStructure (''## Only heading'' @ [CHR 0x0A] @ ''text'') = False"
  by code_simp

section \<open>Properties of the performance analytics service\<close>




section \<open>Properties of the keyword ranking\<close>






















text \<open>
  Claim C3 fails on the code: the default keywords are returned only when fetching the history
  fails. For an empty history, and for posts without a keyword field, the ranking is the empty
  list, although the doc comment of \<^verbatim>\<open>getDefaultKeywords\<close> announces the default keywords
  for the case that no history exists.
\<close>

theorem getTopKeywordsFromHistory_empty_history:
  "getTopKeywordsFromHistory (Resolved []) = []
   \<and> getTopKeywordsFromHistory
       (Resolved [\<lparr>content_keywords = None, engagement_score = Some 40\<rparr>]) = []
   \<and> getTopKeywordsFromHistory (Rejected (Error ''timeout'')) =
       [''sales automation'', ''lead generation'', ''AI content marketing'',
        ''SEO optimization'', ''social media automation'']"
  by (simp add: getTopKeywordsFromHistory_def addPost_def getDefaultKeywords_def)




section \<open>Properties of the publishing schedule\<close>

lemma div_pred:
  fixes y k :: int
  assumes "0 < k"
  shows "y div k = (y - 1) div k + (if y mod k = 0 then 1 else 0)"
proof (cases "y mod k = 0")
  case True
  then have "y = k * (y div k)"
    by (metis mult_div_mod_eq add.right_neutral)
  then have "y - 1 = k * (y div k - 1) + (k - 1)"
    by (simp add: algebra_simps)
  then have "(y - 1) div k = y div k - 1"
    by (rule int_div_pos_eq) (use assms in simp_all)
  with True show ?thesis by simp
next
  case False
  have "0 \<le> y mod k" "y mod k < k"
    using assms by simp_all
  with False have r: "0 \<le> y mod k - 1" "y mod k - 1 < k"
    by linarith+
  have "y - 1 = k * (y div k) + (y mod k - 1)"
    by (simp add: algebra_simps)
  then have "(y - 1) div k = y div k"
    using r by (rule int_div_pos_eq)
  with False show ?thesis by simp
qed

lemma month_cases:
  fixes mn :: int
  assumes "0 \<le> mn" and "mn \<le> 11"
  shows "mn \<in> {0, 1, 2, 3, 4, 5, 6, 7, 8, 9, 10, 11}"
proof (cases "mn \<le> 5")
  case True
  with assms have "mn = 0 \<or> mn = 1 \<or> mn = 2 \<or> mn = 3 \<or> mn = 4 \<or> mn = 5"
    by linarith
  then show ?thesis by auto
next
  case False
  with assms have "mn = 6 \<or> mn = 7 \<or> mn = 8 \<or> mn = 9 \<or> mn = 10 \<or> mn = 11"
    by linarith
  then show ?thesis by auto
qed

lemma div_bounds:
  fixes y :: int
  shows "4 * (y div 4) \<le> y" "y < 4 * (y div 4) + 4"
    "100 * (y div 100) \<le> y" "y < 100 * (y div 100) + 100"
    "400 * (y div 400) \<le> y" "y < 400 * (y div 400) + 400"
proof -
  have "y = 4 * (y div 4) + y mod 4" "0 \<le> y mod 4" "y mod 4 < 4" by simp_all
  then show "4 * (y div 4) \<le> y" "y < 4 * (y div 4) + 4" by linarith+
  have "y = 100 * (y div 100) + y mod 100" "0 \<le> y mod 100" "y mod 100 < 100" by simp_all
  then show "100 * (y div 100) \<le> y" "y < 100 * (y div 100) + 100" by linarith+
  have "y = 400 * (y div 400) + y mod 400" "0 \<le> y mod 400" "y mod 400 < 400" by simp_all
  then show "400 * (y div 400) \<le> y" "y < 400 * (y div 400) + 400" by linarith+
qed

lemma month_offset_bounds:
  fixes mn :: int
  shows "0 \<le> (153 * ((mn + 10) mod 12) + 2) div 5" "(153 * ((mn + 10) mod 12) + 2) div 5 \<le> 337"
proof -
  have b: "0 \<le> (mn + 10) mod 12" "(mn + 10) mod 12 < 12"
    by simp_all
  then show "0 \<le> (153 * ((mn + 10) mod 12) + 2) div 5"
    by (simp add: pos_imp_zdiv_nonneg_iff)
  from b have "153 * ((mn + 10) mod 12) + 2 \<le> 1685" by linarith
  then have "(153 * ((mn + 10) mod 12) + 2) div 5 \<le> 1685 div 5"
    by (rule zdiv_mono1) simp
  then show "(153 * ((mn + 10) mod 12) + 2) div 5 \<le> 337" by simp
qed

text \<open>The table of month lengths agrees with the day numbers: the first day of the next month
  comes \<open>daysInMonth\<close> days after the first day of a month.\<close>

lemma dayFromYearMonth_february:
  "dayFromYearMonth ym 2 = dayFromYearMonth ym 1 + daysInMonth ym 1"
proof -
  define q4 q100 q400 where "q4 = (ym - 1) div 4" and "q100 = (ym - 1) div 100"
    and "q400 = (ym - 1) div 400"
  define p4 p100 p400 where "p4 \<longleftrightarrow> ym mod 4 = 0" and "p100 \<longleftrightarrow> ym mod 100 = 0"
    and "p400 \<longleftrightarrow> ym mod 400 = 0"
  have a: "ym div 4 = q4 + (if p4 then 1 else 0)"
    unfolding q4_def p4_def by (rule div_pred) simp
  have b: "ym div 100 = q100 + (if p100 then 1 else 0)"
    unfolding q100_def p100_def by (rule div_pred) simp
  have c: "ym div 400 = q400 + (if p400 then 1 else 0)"
    unfolding q400_def p400_def by (rule div_pred) simp
  have "ym mod 100 = ym mod 400 mod 100"
    by (simp add: mod_mod_cancel)
  then have d: "p400 \<longrightarrow> p100"
    unfolding p400_def p100_def by (intro impI) simp
  have "ym mod 4 = ym mod 100 mod 4"
    by (simp add: mod_mod_cancel)
  then have e: "p100 \<longrightarrow> p4"
    unfolding p100_def p4_def by (intro impI) simp
  have l: "dayFromYearMonth ym 2 = 365 * ym + ym div 4 - ym div 100 + ym div 400 - 719468"
    by (simp add: dayFromYearMonth_def Let_def)
  have r: "dayFromYearMonth ym 1 = 365 * (ym - 1) + q4 - q100 + q400 + 337 - 719468"
    by (simp add: dayFromYearMonth_def q4_def q100_def q400_def Let_def)
  have f: "daysInMonth ym 1 = (if p4 \<and> (\<not> p100 \<or> p400) then 29 else 28)"
    by (simp add: daysInMonth_def isLeapYear_def p4_def p100_def p400_def)
  show ?thesis
    unfolding l r f a b c using d e by (cases p4; cases p100; cases p400; simp)
qed

lemma dayFromYearMonth_next:
  assumes "0 \<le> mn" and "mn \<le> 11"
  shows "dayFromYearMonth (ym + (mn + 1) div 12) ((mn + 1) mod 12) =
         dayFromYearMonth ym mn + daysInMonth ym mn"
proof (cases "mn = 1")
  case True
  then show ?thesis by (simp add: dayFromYearMonth_february)
next
  case False
  with month_cases [OF assms] have "mn \<in> {0, 2, 3, 4, 5, 6, 7, 8, 9, 10, 11}"
    by simp
  then show ?thesis
    unfolding dayFromYearMonth_def daysInMonth_def Let_def
    by (elim insertE emptyE) simp_all
qed

lemma daysInMonth_bounds: "28 \<le> daysInMonth ym mn \<and> daysInMonth ym mn \<le> 31"
  by (simp add: daysInMonth_def)

lemma dayFromYearMonth_range:
  assumes "- 271820 \<le> ym" and "ym \<le> 275760" and "ym = 275760 \<longrightarrow> mn < 2"
    and "0 \<le> mn" and "mn \<le> 11"
  shows "- 100000000 < dayFromYearMonth ym mn - 1 \<and> dayFromYearMonth ym mn + 30 \<le> 100000000"
proof (cases "mn < 2")
  case True
  define y where "y = ym - 1"
  have y: "- 271821 \<le> y" "y \<le> 275759"
    using assms by (auto simp: y_def)
  from True assms have "mn = 0 \<or> mn = 1"
    by linarith
  then have "dayFromYearMonth ym mn = 365 * y + y div 4 - y div 100 + y div 400 + 306 - 719468
      \<or> dayFromYearMonth ym mn = 365 * y + y div 4 - y div 100 + y div 400 + 337 - 719468"
    by (auto simp: dayFromYearMonth_def y_def Let_def)
  with y div_bounds [of y] show ?thesis
    by linarith
next
  case False
  define y where "y = ym"
  have y: "- 271820 \<le> y" "y \<le> 275759"
    using assms False by (auto simp: y_def)
  have "dayFromYearMonth ym mn =
        365 * y + y div 4 - y div 100 + y div 400 + (153 * ((mn + 10) mod 12) + 2) div 5 - 719468"
    using False by (simp add: dayFromYearMonth_def y_def Let_def)
  with y month_offset_bounds [of mn] div_bounds [of y] show ?thesis
    by linarith
qed

text \<open>Dates of a valid month: the year as the constructor reads it, the dates of the days 1
  to 31 and day 0 of the following month, and the weekday.\<close>

lemma normalizeMonth_valid:
  assumes "1 \<le> month" and "month \<le> 12"
  shows "normalizeMonth year (month - 1) =
         ((if 0 \<le> year \<and> year \<le> 99 then 1900 + year else year), month - 1)"
  using assms by (simp add: normalizeMonth_def Let_def)

lemma newDate_valid:
  assumes "1 \<le> month" and "month \<le> 12" and "- 271820 \<le> year" and "year \<le> 275759"
    and "1 \<le> day" and "day \<le> 31"
  shows "newDate year (month - 1) day =
         Some (dayFromYearMonth (if 0 \<le> year \<and> year \<le> 99 then 1900 + year else year)
                 (month - 1) + day - 1)"
proof -
  let ?yr = "if 0 \<le> year \<and> year \<le> 99 then 1900 + year else year"
  have yr: "- 271820 \<le> ?yr" "?yr \<le> 275760" "?yr = 275760 \<longrightarrow> month - 1 < 2"
    using assms by auto
  have "- 100000000 < dayFromYearMonth ?yr (month - 1) - 1 \<and>
        dayFromYearMonth ?yr (month - 1) + 30 \<le> 100000000"
    using yr by (rule dayFromYearMonth_range) (use assms in simp_all)
  with assms(5,6) have "- 100000000 \<le> dayFromYearMonth ?yr (month - 1) + day - 1 \<and>
        dayFromYearMonth ?yr (month - 1) + day - 1 \<le> 100000000"
    by linarith
  then show ?thesis
    by (simp add: newDate_def normalizeMonth_valid [OF assms(1,2)] Let_def)
qed

lemma lastDateOfMonth_valid:
  assumes "1 \<le> month" and "month \<le> 12" and "- 271820 \<le> year" and "year \<le> 275759"
  shows "lastDateOfMonth year month =
         Some (daysInMonth (if 0 \<le> year \<and> year \<le> 99 then 1900 + year else year) (month - 1))"
proof -
  let ?yr = "if 0 \<le> year \<and> year \<le> 99 then 1900 + year else year"
  obtain ym mn where n: "normalizeMonth year month = (ym, mn)"
    by (cases "normalizeMonth year month")
  have ymmn: "ym = ?yr + month div 12" "mn = month mod 12"
    using n by (auto simp: normalizeMonth_def Let_def)
  have m: "(month = 12 \<and> month div 12 = 1 \<and> month mod 12 = 0) \<or>
           (month < 12 \<and> month div 12 = 0 \<and> month mod 12 = month)"
    using assms(1,2) by (cases "month = 12") simp_all
  have "- 271820 \<le> ym" "ym \<le> 275760" "ym = 275760 \<longrightarrow> mn < 2" "0 \<le> mn" "mn \<le> 11"
    using assms m ymmn by auto
  then have "- 100000000 < dayFromYearMonth ym mn - 1 \<and>
        dayFromYearMonth ym mn + 30 \<le> 100000000"
    by (rule dayFromYearMonth_range)
  then have "- 100000000 \<le> dayFromYearMonth ym mn + 0 - 1 \<and>
        dayFromYearMonth ym mn + 0 - 1 \<le> 100000000"
    by linarith
  then have "newDate year month 0 = Some (dayFromYearMonth ym mn + 0 - 1)"
    unfolding newDate_def n by (simp add: Let_def)
  then show ?thesis
    by (simp add: lastDateOfMonth_def normalizeMonth_valid [OF assms(1,2)])
qed

lemma tuesday_in_first_week:
  fixes d :: int
  shows "(d + (7 - (d + 1) mod 7) - 1 + 4) mod 7 = 2"
proof -
  define q r where "q = (d + 1) div 7" and "r = (d + 1) mod 7"
  have "d + 1 = 7 * q + r"
    by (simp add: q_def r_def)
  then have "d + (7 - r) - 1 + 4 = 9 + 7 * q"
    by linarith
  moreover have "(9 + 7 * q) mod 7 = 2"
    by (simp only: mod_mult_self2) simp
  ultimately show ?thesis
    by (simp only: r_def)
qed

text \<open>The optimal days of a valid month: the days of the month that fall on a Tuesday, a
  Wednesday or a Thursday, and at least one of them.\<close>

lemma getOptimalPublishingDays_valid:
  assumes "1 \<le> month" and "month \<le> 12" and "- 271820 \<le> year" and "year \<le> 275759"
  shows "set (getOptimalPublishingDays month year) =
           {day. 1 \<le> day \<and> lastDateOfMonth year month \<noteq> None \<and>
                 day \<le> the (lastDateOfMonth year month) \<and>
                 newDate year (month - 1) day \<noteq> None \<and>
                 getDay (newDate year (month - 1) day) \<in> {Some 2, Some 3, Some 4}}"
    and "getOptimalPublishingDays month year \<noteq> []"
proof -
  let ?yr = "if 0 \<le> year \<and> year \<le> 99 then 1900 + year else year"
  let ?dim = "daysInMonth ?yr (month - 1)"
  let ?D = "dayFromYearMonth ?yr (month - 1)"
  have last: "lastDateOfMonth year month = Some ?dim"
    using assms by (rule lastDateOfMonth_valid)
  have dim: "28 \<le> ?dim" "?dim \<le> 31"
    using daysInMonth_bounds [of ?yr "month - 1"] by simp_all
  have nd: "newDate year (month - 1) day = Some (?D + day - 1)" if "1 \<le> day" "day \<le> ?dim" for day
    using assms that dim(2) by (intro newDate_valid) simp_all
  have wd: "(case getDay (newDate year (month - 1) day) of None \<Rightarrow> False
            | Some dayOfWeek \<Rightarrow> dayOfWeek \<ge> 2 \<and> dayOfWeek \<le> 4) \<longleftrightarrow>
            getDay (newDate year (month - 1) day) \<in> {Some 2, Some 3, Some 4}" for day
  proof (cases "getDay (newDate year (month - 1) day)")
    case None
    then show ?thesis by simp
  next
    case (Some w)
    have "2 \<le> w \<and> w \<le> 4 \<longleftrightarrow> w = 2 \<or> w = 3 \<or> w = 4"
      by linarith
    with Some show ?thesis by simp
  qed
  have days: "getOptimalPublishingDays month year =
        filter (\<lambda>day. getDay (newDate year (month - 1) day) \<in> {Some 2, Some 3, Some 4}) [1..?dim]"
    by (simp add: getOptimalPublishingDays_def last wd)
  show "set (getOptimalPublishingDays month year) =
           {day. 1 \<le> day \<and> lastDateOfMonth year month \<noteq> None \<and>
                 day \<le> the (lastDateOfMonth year month) \<and>
                 newDate year (month - 1) day \<noteq> None \<and>
                 getDay (newDate year (month - 1) day) \<in> {Some 2, Some 3, Some 4}}"
    unfolding days last using nd by auto
  let ?t = "7 - (?D + 1) mod 7"
  have t: "1 \<le> ?t" "?t \<le> 7"
    using pos_mod_sign [of 7 "?D + 1"] pos_mod_bound [of 7 "?D + 1"] by linarith+
  with dim have t': "?t \<le> ?dim"
    by linarith
  have "getDay (newDate year (month - 1) ?t) = Some 2"
    unfolding nd [OF t(1) t'] getDay_def using tuesday_in_first_week [of ?D] by simp
  with t(1) t' have "?t \<in> set (getOptimalPublishingDays month year)"
    unfolding days by simp
  then show "getOptimalPublishingDays month year \<noteq> []"
    by auto
qed

text \<open>The loops of \<^verbatim>\<open>createPublishingSchedule\<close>, read through a projection of the items that
  does not look at the identifier.\<close>

lemma map_fold_push:
  assumes "\<And>p c. g (mk p c) = h p"
  shows "map g (fold (\<lambda>p c. c @ [mk p c]) ps acc) = map g acc @ map h ps"
  using assms by (induction ps arbitrary: acc) simp_all

lemma map_fold_fold_push:
  assumes "\<And>i x p c. g (mk i x p c) = h i x p"
  shows "map g (fold (\<lambda>(i, x) cal. fold (\<lambda>p c. c @ [mk i x p c]) (pl i x) cal) xs acc) =
         map g acc @ concat (map (\<lambda>(i, x). map (h i x) (pl i x)) xs)"
proof (induction xs arbitrary: acc)
  case Nil
  show ?case by simp
next
  case (Cons a xs)
  obtain i x where a: "a = (i, x)" by (cases a)
  have "map g (fold (\<lambda>p c. c @ [mk i x p c]) (pl i x) acc) = map g acc @ map (h i x) (pl i x)"
    by (rule map_fold_push) (rule assms)
  then show ?case
    by (simp add: a Cons.IH)
qed

lemma enumerate_map_enumerate:
  "enumerate n (map (\<lambda>(i, x). f i x) (enumerate n xs)) = map (\<lambda>(i, x). (i, f i x)) (enumerate n xs)"
  by (induction xs arbitrary: n) simp_all

lemma map_index_enumerate: "map (\<lambda>(i, x). f i) (enumerate 0 xs) = map f [0..<length xs]"
proof -
  have "map (\<lambda>(i, x). f i) (enumerate 0 xs) = map f (map fst (enumerate 0 xs))"
    unfolding map_map by (rule map_cong) auto
  then show ?thesis
    by (simp only: map_fst_enumerate) simp
qed

lemma concat_pairs_length: "length (concat (map (\<lambda>x. [a x, b x]) xs)) = 2 * length xs"
  by (induction xs) simp_all

lemma concat_pairs_nth:
  "j < 2 * length xs \<Longrightarrow>
   concat (map (\<lambda>x. [a x, b x]) xs) ! j =
   (if even j then a (xs ! (j div 2)) else b (xs ! (j div 2)))"
proof (induction xs arbitrary: j)
  case Nil
  then show ?case by simp
next
  case (Cons x xs)
  show ?case
  proof (cases j)
    case 0
    then show ?thesis by simp
  next
    case (Suc j1)
    show ?thesis
    proof (cases j1)
      case 0
      with Suc show ?thesis by simp
    next
      case (Suc j2)
      with \<open>j = Suc j1\<close> Cons.prems have "j2 < 2 * length xs"
        by simp
      from Cons.IH [OF this] Suc \<open>j = Suc j1\<close> show ?thesis
        by simp
    qed
  qed
qed

text \<open>Date, platform and status of the items of a schedule, in the order of the schedule.\<close>

lemma createPublishingSchedule_items:
  "map (\<lambda>item. (publishDate item, platform item, status item))
     (createPublishingSchedule uuidv4 ideas month year) =
   concat (map (\<lambda>(index, idea).
       map (\<lambda>p. (if getOptimalPublishingDays month year = [] then None
                   else newDate year (month - 1)
                          (getOptimalPublishingDays month year !
                             (index mod length (getOptimalPublishingDays month year))),
                  p, Scheduled))
           (case platforms idea of None \<Rightarrow> [Blog] | Some ps \<Rightarrow> ps))
     (enumerate 0 ideas))"
  unfolding createPublishingSchedule_def Let_def
  using map_fold_fold_push
    [where g = "\<lambda>item. (publishDate item, platform item, status item)"
       and mk = "\<lambda>index idea p c.
          \<lparr>itemId = uuidv4 (length c), title = ideaTitle idea,
           description = ideaDescription idea, itemKeywords = [ideaKeyword idea],
           publishDate = (if getOptimalPublishingDays month year = [] then None
                   else newDate year (month - 1)
                          (getOptimalPublishingDays month year !
                             (index mod length (getOptimalPublishingDays month year)))),
           platform = p, status = Scheduled, seoScore = None\<rparr>"
       and h = "\<lambda>index idea p. (if getOptimalPublishingDays month year = [] then None
                   else newDate year (month - 1)
                          (getOptimalPublishingDays month year !
                             (index mod length (getOptimalPublishingDays month year))),
                  p, Scheduled)"
       and pl = "\<lambda>index idea. case platforms idea of None \<Rightarrow> [Blog] | Some ps \<Rightarrow> ps"
       and xs = "enumerate 0 ideas" and acc = "[]"]
  by simp

lemma build_items:
  "map (\<lambda>item. (publishDate item, platform item, status item))
     (createPublishingSchedule uuidv4 (generateContentIdeas kws) month year) =
   concat (map (\<lambda>index.
       [(if getOptimalPublishingDays month year = [] then None
         else newDate year (month - 1)
                (getOptimalPublishingDays month year !
                   (index mod length (getOptimalPublishingDays month year))),
         Blog, Scheduled),
        (if getOptimalPublishingDays month year = [] then None
         else newDate year (month - 1)
                (getOptimalPublishingDays month year !
                   (index mod length (getOptimalPublishingDays month year))),
         Linkedin, Scheduled)])
     [0..<length kws])"
proof -
  let ?date = "\<lambda>index. if getOptimalPublishingDays month year = [] then None
         else newDate year (month - 1)
                (getOptimalPublishingDays month year !
                   (index mod length (getOptimalPublishingDays month year)))"
  have "map (\<lambda>item. (publishDate item, platform item, status item))
     (createPublishingSchedule uuidv4 (generateContentIdeas kws) month year) =
     concat (map (\<lambda>(index, kw). [(?date index, Blog, Scheduled), (?date index, Linkedin, Scheduled)])
       (enumerate 0 kws))"
    unfolding createPublishingSchedule_items generateContentIdeas_def enumerate_map_enumerate
    by (simp add: case_prod_unfold comp_def cong: if_cong)
  also have "\<dots> = concat (map (\<lambda>index. [(?date index, Blog, Scheduled),
       (?date index, Linkedin, Scheduled)]) [0..<length kws])"
    by (simp only: map_index_enumerate)
  finally show ?thesis .
qed

text \<open>
  Claim C5. For a non-empty list of keywords, a month from 1 to 12 and a year from -271820 to
  275759 (the years all of whose days are valid dates), the schedule built from the keywords
  has two items for each keyword, one for the blog and one for LinkedIn, in this order; every
  item is scheduled, and its publish date is a valid date, a day of the target month and a
  Tuesday, a Wednesday or a Thursday.
\<close>

theorem createPublishingSchedule_build:
  assumes "kws \<noteq> []" and "1 \<le> month" and "month \<le> 12"
    and "- 271820 \<le> year" and "year \<le> 275759"
  shows "length (createPublishingSchedule uuidv4 (generateContentIdeas kws) month year) =
           2 * length kws
         \<and> map platform (createPublishingSchedule uuidv4 (generateContentIdeas kws) month year) =
           concat (map (\<lambda>kw. [Blog, Linkedin]) kws)
         \<and> (\<forall>item \<in> set (createPublishingSchedule uuidv4 (generateContentIdeas kws) month year).
              status item = Scheduled \<and>
              (\<exists>day dim. lastDateOfMonth year month = Some dim \<and> 1 \<le> day \<and> day \<le> dim \<and>
                 publishDate item = newDate year (month - 1) day \<and> publishDate item \<noteq> None \<and>
                 getDay (publishDate item) \<in> {Some 2, Some 3, Some 4}))"
proof -
  let ?cal = "createPublishingSchedule uuidv4 (generateContentIdeas kws) month year"
  let ?days = "getOptimalPublishingDays month year"
  let ?date = "\<lambda>index. if ?days = [] then None
         else newDate year (month - 1) (?days ! (index mod length ?days))"
  let ?g = "\<lambda>item. (publishDate item, platform item, status item)"
  let ?T = "concat (map (\<lambda>index. [(?date index, Blog, Scheduled),
       (?date index, Linkedin, Scheduled)]) [0..<length kws])"
  have items: "map ?g ?cal = ?T"
    by (rule build_items)
  have "length ?cal = length (map ?g ?cal)"
    by simp
  also have "\<dots> = 2 * length kws"
    unfolding items by (simp only: concat_pairs_length) simp
  finally have len: "length ?cal = 2 * length kws" .
  have "map platform ?cal = map (\<lambda>t. fst (snd t)) (map ?g ?cal)"
    by simp
  also have "\<dots> = concat (map (\<lambda>index. [Blog, Linkedin]) [0..<length kws])"
    unfolding items by (simp add: map_concat comp_def)
  also have "\<dots> = concat (replicate (length kws) [Blog, Linkedin])"
    by (simp add: map_replicate_const)
  also have "\<dots> = concat (map (\<lambda>kw. [Blog, Linkedin]) kws)"
    by (simp add: map_replicate_const)
  finally have plat: "map platform ?cal = concat (map (\<lambda>kw. [Blog, Linkedin]) kws)" .
  have "status item = Scheduled \<and>
              (\<exists>day dim. lastDateOfMonth year month = Some dim \<and> 1 \<le> day \<and> day \<le> dim \<and>
                 publishDate item = newDate year (month - 1) day \<and> publishDate item \<noteq> None \<and>
                 getDay (publishDate item) \<in> {Some 2, Some 3, Some 4})"
    if "item \<in> set ?cal" for item
  proof -
  from that have "?g item \<in> set (map ?g ?cal)"
    by simp
  then obtain index where g: "?g item = (?date index, Blog, Scheduled) \<or>
      ?g item = (?date index, Linkedin, Scheduled)"
    unfolding items by auto
  have ne: "?days \<noteq> []"
    using assms(2-5) by (rule getOptimalPublishingDays_valid(2))
  then have "?days ! (index mod length ?days) \<in> set ?days"
    by simp
  then have day: "1 \<le> ?days ! (index mod length ?days)"
    "lastDateOfMonth year month \<noteq> None"
    "?days ! (index mod length ?days) \<le> the (lastDateOfMonth year month)"
    "newDate year (month - 1) (?days ! (index mod length ?days)) \<noteq> None"
    "getDay (newDate year (month - 1) (?days ! (index mod length ?days))) \<in>
       {Some 2, Some 3, Some 4}"
    unfolding getOptimalPublishingDays_valid(1) [OF assms(2-5)] by simp_all
  from g ne have pd: "publishDate item = newDate year (month - 1) (?days ! (index mod length ?days))"
    and st: "status item = Scheduled"
    by auto
  from day(2) obtain dim where dim: "lastDateOfMonth year month = Some dim"
    by auto
  have "\<exists>day dim. lastDateOfMonth year month = Some dim \<and> 1 \<le> day \<and> day \<le> dim \<and>
                 publishDate item = newDate year (month - 1) day \<and> publishDate item \<noteq> None \<and>
                 getDay (publishDate item) \<in> {Some 2, Some 3, Some 4}"
    using day dim pd by (intro exI [of _ "?days ! (index mod length ?days)"] exI [of _ dim]) simp
  with st show ?thesis
    by simp
  qed
  with len plat show ?thesis
    by blast
qed

theorem createPublishingSchedule_build_witness:
  "[''seo'', ''leads''] \<noteq> [] \<and> (1::int) \<le> 6 \<and> (6::int) \<le> 12 \<and>
   (- 271820 :: int) \<le> 2025 \<and> (2025::int) \<le> 275759 \<and>
   length (createPublishingSchedule showNat (generateContentIdeas [''seo'', ''leads'']) 6 2025) = 4 \<and>
   map platform (createPublishingSchedule showNat (generateContentIdeas [''seo'', ''leads'']) 6 2025)
     = [Blog, Linkedin, Blog, Linkedin]"
  using createPublishingSchedule_build [of "[''seo'', ''leads'']" 6 2025 showNat]
  by simp

text \<open>
  Claim C6, as amended. The publish date of the item at position \<open>j\<close> of the schedule is the
  optimal day at index \<open>i mod length(optimalDays)\<close>, where \<open>i = j div 2\<close> is the position of the
  item's idea in the list of ideas: the two platform copies of an idea have the same publish
  date, and the dates move one step through the optimal days from one idea to the next. (Without
  optimal days the date is the invalid date.)
\<close>

theorem createPublishingSchedule_publishDate:
  assumes "j < length (createPublishingSchedule uuidv4 (generateContentIdeas kws) month year)"
  shows "publishDate (createPublishingSchedule uuidv4 (generateContentIdeas kws) month year ! j) =
           (if getOptimalPublishingDays month year = [] then None
            else newDate year (month - 1)
                   (getOptimalPublishingDays month year !
                      ((j div 2) mod length (getOptimalPublishingDays month year))))"
proof -
  let ?cal = "createPublishingSchedule uuidv4 (generateContentIdeas kws) month year"
  let ?days = "getOptimalPublishingDays month year"
  let ?date = "\<lambda>index. if ?days = [] then None
         else newDate year (month - 1) (?days ! (index mod length ?days))"
  let ?g = "\<lambda>item. (publishDate item, platform item, status item)"
  let ?T = "concat (map (\<lambda>index. [(?date index, Blog, Scheduled),
       (?date index, Linkedin, Scheduled)]) [0..<length kws])"
  have items: "map ?g ?cal = ?T"
    by (rule build_items)
  have "length ?cal = length (map ?g ?cal)"
    by simp
  also have "\<dots> = 2 * length kws"
    unfolding items by (simp only: concat_pairs_length) simp
  finally have len: "length ?cal = 2 * length kws" .
  with assms have j: "j < 2 * length [0..<length kws]" "j div 2 < length kws"
    by simp_all
  have "publishDate (?cal ! j) = fst (map ?g ?cal ! j)"
    using assms by simp
  also have "\<dots> = ?date ([0..<length kws] ! (j div 2))"
    unfolding items concat_pairs_nth [OF j(1)] by simp
  also have "\<dots> = ?date (j div 2)"
    using j(2) by simp
  finally show ?thesis .
qed

theorem createPublishingSchedule_publishDate_witness:
  "(1::nat) < length (createPublishingSchedule showNat (generateContentIdeas [''seo'', ''leads''])
       6 2025) \<and>
   publishDate (createPublishingSchedule showNat (generateContentIdeas [''seo'', ''leads''])
       6 2025 ! 1) = newDate 2025 5 3 \<and>
   publishDate (createPublishingSchedule showNat (generateContentIdeas [''seo'', ''leads''])
       6 2025 ! 2) = newDate 2025 5 4"
proof -
  have days: "getOptimalPublishingDays 6 2025 = [3, 4, 5, 10, 11, 12, 17, 18, 19, 24, 25, 26]"
    by code_simp
  have len: "length (createPublishingSchedule showNat (generateContentIdeas [''seo'', ''leads''])
       6 2025) = 4"
    by code_simp
  show ?thesis
    using createPublishingSchedule_publishDate [of 1 showNat "[''seo'', ''leads'']" 6 2025]
      createPublishingSchedule_publishDate [of 2 showNat "[''seo'', ''leads'']" 6 2025]
    unfolding days len by simp
qed

text \<open>
  Claim C6, as stated, fails: in June 2025 the optimal days begin with the 3rd and the 4th. The
  item at position 1 of the flattened sequence, the LinkedIn copy of the first idea, is dated the
  3rd like the blog copy, not the 4th, the optimal day at index \<open>1 mod length(optimalDays)\<close>.
\<close>

theorem createPublishingSchedule_position_counterexample:
  "publishDate (createPublishingSchedule showNat (generateContentIdeas [''seo'']) 6 2025 ! 1) =
     newDate 2025 (6 - 1) 3
   \<and> getOptimalPublishingDays 6 2025 ! (1 mod length (getOptimalPublishingDays 6 2025)) = 4
   \<and> newDate 2025 (6 - 1) 3 \<noteq> newDate 2025 (6 - 1) 4"
  by code_simp

end
